theory Spec2Isabelle
  imports Complex_Main "HOL-Library.Sublist"
begin

section \<open>Effects of the launcher's start-up code\<close>

text \<open>
  The file \<open>albert.cpp\<close> holds two functions with effects only: \<open>AlbertApp::run\<close>, the
  start-up of one invocation, and \<open>dispatchMessage\<close>, the slot that serves one connection
  on the local socket. Both are embedded as functions from the answers of their
  surroundings (the operating system, Qt, SQLite) to the list of calls they make, in order,
  and the way they end. An answer is a field of a record; a call is an \<open>event\<close>.
\<close>

subsection \<open>Messages and the installed message handler\<close>

datatype QtMsgType = QtDebugMsg | QtInfoMsg | QtWarningMsg | QtCriticalMsg | QtFatalMsg

datatype stream = Stdout | Stderr

text \<open>
  SQL values and the two statement forms the code sends. \<open>DeleteOlderThan t c d\<close> stands for
  \<^verbatim>\<open>DELETE FROM t WHERE julianday('now')-julianday(c)>d;\<close>.
\<close>

datatype sqlval = SqlNull | SqlInteger int | SqlReal real | SqlText string | SqlBlob string

datatype stmt =
    CreateTableIfNotExists string "(string \<times> string) list"
  | DeleteOlderThan string string real

datatype event =
    Fprintf stream string string
  | Call string "string list"
  | ConnectToServer string
  | WaitForConnected nat
  | WaitForReadyRead nat
  | SocketWrite string
  | SocketFlush
  | ReadAll
  | SocketClose
  | DeleteLater
  | RemoveServer string
  | Listen string
  | ConnectNewConnection string
  | SetVisible bool
  | ToggleVisibility
  | SqlExec stmt
  | Exec

text \<open>
  A piece of code yields the calls it made and either the status it handed to \<open>exit\<close>
  (\<open>Inl\<close>) or its value (\<open>Inr\<close>).
\<close>

type_synonym 'a prog = "event list \<times> (int + 'a)"

definition ret :: "'a \<Rightarrow> 'a prog" where
  "ret x = ([], Inr x)"

definition skip :: "unit prog" where
  "skip = ([], Inr ())"

definition emit :: "event \<Rightarrow> unit prog" where
  "emit e = ([e], Inr ())"

definition call :: "string \<Rightarrow> string list \<Rightarrow> unit prog" where
  "call f xs = emit (Call f xs)"

definition exit_with :: "int \<Rightarrow> unit prog" where
  "exit_with c = ([], Inl c)"

definition and_then :: "'a prog \<Rightarrow> ('a \<Rightarrow> 'b prog) \<Rightarrow> 'b prog" where
  "and_then p f =
     (case p of
        (tr, Inl c) \<Rightarrow> (tr, Inl c)
      | (tr, Inr a) \<Rightarrow> (case f a of (tr', r) \<Rightarrow> (tr @ tr', r)))"

fun steps :: "unit prog list \<Rightarrow> unit prog" where
  "steps [] = skip"
| "steps (p # ps) = and_then p (\<lambda>_. steps ps)"

definition EXIT_SUCCESS :: int where
  "EXIT_SUCCESS = 0"

definition EXIT_FAILURE :: int where
  "EXIT_FAILURE = 1"

text \<open>
  \<open>myMessageOutput\<close> prints debug and info messages to the standard output, the others to
  the standard error, and ends the process with status 1 on a fatal message. The time of
  day, the colours and the name of the calling function that it prints too are left out.
\<close>

fun myMessageOutput :: "QtMsgType \<Rightarrow> string \<Rightarrow> unit prog" where
  "myMessageOutput QtDebugMsg message = emit (Fprintf Stdout ''DEBG'' message)"
| "myMessageOutput QtInfoMsg message = emit (Fprintf Stdout ''INFO'' message)"
| "myMessageOutput QtWarningMsg message = emit (Fprintf Stderr ''WARN'' message)"
| "myMessageOutput QtCriticalMsg message = emit (Fprintf Stderr ''CRIT'' message)"
| "myMessageOutput QtFatalMsg message =
     and_then (emit (Fprintf Stderr ''FATAL'' message)) (\<lambda>_. exit_with 1)"

definition qDebug :: "string \<Rightarrow> unit prog" where
  "qDebug m = myMessageOutput QtDebugMsg m"

definition qInfo :: "string \<Rightarrow> unit prog" where
  "qInfo m = myMessageOutput QtInfoMsg m"

definition qWarning :: "string \<Rightarrow> unit prog" where
  "qWarning m = myMessageOutput QtWarningMsg m"

definition qCritical :: "string \<Rightarrow> unit prog" where
  "qCritical m = myMessageOutput QtCriticalMsg m"

definition qFatal :: "string \<Rightarrow> unit prog" where
  "qFatal m = myMessageOutput QtFatalMsg m"

subsection \<open>Serving one connection\<close>

text \<open>
  \<open>dispatchMessage\<close> takes the next pending connection, waits up to 500 ms for bytes and
  looks at what is there. \<open>delivered\<close> are the bytes the socket holds when the wait is over
  (none when nothing came in time), \<open>fromLocal8Bit\<close> is the platform's decoding of them.

  The slot reaches the front-end through the file's static pointer \<open>frontendManager\<close>. The
  pointer is null when the process starts and is set only in the middle of \<open>run\<close>, after
  the slot has been connected; \<open>None\<close> is the null pointer. Calling through the null pointer
  has no defined behaviour; the model stops the slot there and says so
  (\<open>NullDereference\<close>), with the calls made up to that point. What the manager does once
  it exists is not in this file: \<open>currentFrontend()\<close> is taken to hand out a front-end.
\<close>

datatype FrontendManager = FrontendManager

record globals =
  frontendManager :: "FrontendManager option"

record connection =
  delivered :: string
  fromLocal8Bit :: "string \<Rightarrow> string"

datatype slot_end = SlotReturned | NullDereference

definition dispatchMessage :: "globals \<Rightarrow> connection \<Rightarrow> event list \<times> slot_end" where
  "dispatchMessage g socket =
     (if delivered socket \<noteq> [] then
        (let msg = fromLocal8Bit socket (delivered socket) in
         if msg = ''show'' then
           (case frontendManager g of
              None \<Rightarrow> ([WaitForReadyRead 500, ReadAll], NullDereference)
            | Some m \<Rightarrow>
                ([WaitForReadyRead 500, ReadAll,
                  SetVisible True, SocketWrite ''Application set visible.'',
                  SocketFlush, SocketClose, DeleteLater], SlotReturned))
         else if msg = ''hide'' then
           (case frontendManager g of
              None \<Rightarrow> ([WaitForReadyRead 500, ReadAll], NullDereference)
            | Some m \<Rightarrow>
                ([WaitForReadyRead 500, ReadAll,
                  SetVisible False, SocketWrite ''Application set invisible.'',
                  SocketFlush, SocketClose, DeleteLater], SlotReturned))
         else if msg = ''toggle'' then
           (case frontendManager g of
              None \<Rightarrow> ([WaitForReadyRead 500, ReadAll], NullDereference)
            | Some m \<Rightarrow>
                ([WaitForReadyRead 500, ReadAll,
                  ToggleVisibility, SocketWrite ''Visibility toggled.'',
                  SocketFlush, SocketClose, DeleteLater], SlotReturned))
         else
           ([WaitForReadyRead 500, ReadAll,
             SocketWrite ''Command not supported.'',
             SocketFlush, SocketClose, DeleteLater], SlotReturned))
      else
        ([WaitForReadyRead 500, SocketFlush, SocketClose, DeleteLater], SlotReturned))"

text \<open>What a list of calls did to the front-end, and what it wrote to the socket.\<close>

fun is_visibility :: "event \<Rightarrow> bool" where
  "is_visibility (SetVisible b) = True"
| "is_visibility ToggleVisibility = True"
| "is_visibility e = False"

fun written :: "event list \<Rightarrow> string list" where
  "written [] = []"
| "written (SocketWrite s # es) = s # written es"
| "written (e # es) = written es"

fun is_call :: "string \<Rightarrow> event \<Rightarrow> bool" where
  "is_call f (Call g xs) = (f = g)"
| "is_call f e = False"


subsection \<open>Small pieces of Qt the code leans on\<close>

definition dquote :: char where
  "dquote = CHR 0x22"

definition squote :: char where
  "squote = CHR 0x27"

definition backslash :: char where
  "backslash = CHR 0x5C"

text \<open>
  The debug stream (\<open>qInfo() << bytes\<close>, \<open>qWarning() << text\<close>) prints a byte array or a
  string between double quotes, as Qt 5 does in \<open>putEscapedString\<close>: a double quote and a
  backslash get a backslash before them, backspace, form feed, newline, carriage return and
  tab become \<^verbatim>\<open>\b \f \n \r \t\<close>, any other byte of a byte array that is not printable
  ASCII becomes \<^verbatim>\<open>\x\<close> and two upper-case hexadecimal digits, and any other unit of a
  string that is not printable becomes \<^verbatim>\<open>\u\<close> and four. After a \<^verbatim>\<open>\x\<close> escape a
  following hexadecimal digit is kept apart from it by two double quotes. A string is a
  list of units below 256 here.
\<close>

definition toHexUpper :: "nat \<Rightarrow> char" where
  "toHexUpper n = ''0123456789ABCDEF'' ! (n mod 16)"

definition fromHex :: "char \<Rightarrow> nat option" where
  "fromHex c =
     map_of (zip ''0123456789ABCDEFabcdef''
                 [0, 1, 2, 3, 4, 5, 6, 7, 8, 9, 10, 11, 12, 13, 14, 15, 10, 11, 12, 13, 14, 15]) c"

text \<open>Printable for a byte: from the space to the tilde.\<close>

definition isPrintable :: "char \<Rightarrow> bool" where
  "isPrintable c = (32 \<le> (of_char c :: nat) \<and> (of_char c :: nat) < 127)"

text \<open>
  Printable for a unit of a string below 256 (\<open>QChar::isPrint\<close>): not a control character
  and not the soft hyphen.
\<close>

definition isPrint :: "char \<Rightarrow> bool" where
  "isPrint c =
     ((32 \<le> (of_char c :: nat) \<and> (of_char c :: nat) < 127)
      \<or> (160 \<le> (of_char c :: nat) \<and> (of_char c :: nat) \<noteq> 173))"

fun putEscapedString :: "bool \<Rightarrow> bool \<Rightarrow> string \<Rightarrow> string" where
  "putEscapedString isUnicode lastWasHexEscape [] = []"
| "putEscapedString isUnicode lastWasHexEscape (p # ps) =
     (if lastWasHexEscape \<and> fromHex p \<noteq> None then [dquote, dquote] else []) @
     (if (if isUnicode then isPrint p else isPrintable p) \<and> p \<noteq> backslash \<and> p \<noteq> dquote then
        p # putEscapedString isUnicode False ps
      else if p = dquote \<or> p = backslash then
        backslash # p # putEscapedString isUnicode False ps
      else if p = CHR 0x08 then backslash # CHR ''b'' # putEscapedString isUnicode False ps
      else if p = CHR 0x0C then backslash # CHR ''f'' # putEscapedString isUnicode False ps
      else if p = CHR 0x0A then backslash # CHR ''n'' # putEscapedString isUnicode False ps
      else if p = CHR 0x0D then backslash # CHR ''r'' # putEscapedString isUnicode False ps
      else if p = CHR 0x09 then backslash # CHR ''t'' # putEscapedString isUnicode False ps
      else if isUnicode then
        backslash # CHR ''u'' #
        toHexUpper (of_char p div 4096) # toHexUpper (of_char p div 256) #
        toHexUpper (of_char p div 16) # toHexUpper (of_char p) #
        putEscapedString isUnicode False ps
      else
        backslash # CHR ''x'' #
        toHexUpper (of_char p div 16) # toHexUpper (of_char p) #
        putEscapedString isUnicode True ps)"

definition debug_bytes :: "string \<Rightarrow> string" where
  "debug_bytes bytes = dquote # putEscapedString False False bytes @ [dquote]"

definition debug_text :: "string \<Rightarrow> string" where
  "debug_text s = dquote # putEscapedString True False s @ [dquote]"

text \<open>\<open>QString::split\<close> with one separator character, empty parts kept.\<close>

fun split_on :: "char \<Rightarrow> string \<Rightarrow> string list" where
  "split_on sep [] = [[]]"
| "split_on sep (c # cs) =
     (if c = sep then [] # split_on sep cs
      else (case split_on sep cs of
              [] \<Rightarrow> [[c]]
            | part # parts \<Rightarrow> (c # part) # parts))"

text \<open>\<open>QString::section(sep, i, i)\<close>: the field number \<open>i\<close>, empty when there is none.\<close>

definition section_at :: "char \<Rightarrow> nat \<Rightarrow> string \<Rightarrow> string" where
  "section_at sep i s =
     (let fields = split_on sep s in if i < length fields then fields ! i else [])"

text \<open>\<open>QDir(dir).filePath(name)\<close> for a relative name.\<close>

definition filePath :: "string \<Rightarrow> string \<Rightarrow> string" where
  "filePath dir name =
     (if dir \<noteq> [] \<and> last dir = CHR ''/'' then dir @ name else dir @ ''/'' @ name)"

definition applicationVersion :: string where
  "applicationVersion = ''v0.12.0''"

subsection \<open>The usage store\<close>

text \<open>
  A database is a list of ordinary tables under their names, in the order of their creation
  (no views, indexes or triggers). A table has its columns (name and declaration) and its
  rows; a row has one value for each column, in the order of the columns, and a column for
  which the row is too short reads as NULL. SQLite compares the names of tables and columns
  without regard to the case of the letters A to Z.
\<close>

definition to_lower :: "char \<Rightarrow> char" where
  "to_lower c =
     (case map_of (zip ''ABCDEFGHIJKLMNOPQRSTUVWXYZ'' ''abcdefghijklmnopqrstuvwxyz'') c of
        None \<Rightarrow> c
      | Some l \<Rightarrow> l)"

definition same_name :: "string \<Rightarrow> string \<Rightarrow> bool" where
  "same_name a b = (map to_lower a = map to_lower b)"

type_synonym row = "sqlval list"

record table =
  columns :: "(string \<times> string) list"
  rows :: "row list"

type_synonym database = "(string \<times> table) list"

fun find_table :: "database \<Rightarrow> string \<Rightarrow> table option" where
  "find_table [] t = None"
| "find_table ((n, tb) # db) t = (if same_name n t then Some tb else find_table db t)"

fun put_table :: "database \<Rightarrow> string \<Rightarrow> table \<Rightarrow> database" where
  "put_table [] t tb' = []"
| "put_table ((n, tb) # db) t tb' =
     (if same_name n t then (n, tb') # db else (n, tb) # put_table db t tb')"

fun column_position :: "(string \<times> string) list \<Rightarrow> string \<Rightarrow> nat option" where
  "column_position [] c = None"
| "column_position ((n, decl) # cols) c =
     (if same_name n c then Some 0 else map_option Suc (column_position cols c))"

definition field :: "row \<Rightarrow> nat \<Rightarrow> sqlval" where
  "field r i = (if i < length r then r ! i else SqlNull)"

text \<open>
  What the code is told about the store. \<open>julianday\<close> is SQLite's reading of a stored
  value as a Julian day number (\<open>None\<close> for what is no date; NULL is none),
  \<open>julianday_now\<close> the day number of \<^verbatim>\<open>'now'\<close> while a statement runs; day numbers are
  exact reals here. \<open>fault\<close> is an error of the engine that has nothing to do with what the
  statement means (the disk, a lock). A database value is the database as the open
  connection sees it; \<open>transaction\<close> and \<open>commit\<close>, whose results the code does not look
  at, are calls only.
\<close>

record store =
  db_valid :: bool
  db_transactions :: bool
  db_open :: bool
  core_db :: database
  julianday :: "sqlval \<Rightarrow> real option"
  julianday_now :: "stmt \<Rightarrow> real"
  fault :: "stmt \<Rightarrow> string option"

definition julianday_of :: "store \<Rightarrow> sqlval \<Rightarrow> real option" where
  "julianday_of st v = (case v of SqlNull \<Rightarrow> None | _ \<Rightarrow> julianday st v)"

text \<open>The \<^verbatim>\<open>WHERE\<close> condition on a row, for the column at position \<open>i\<close>.\<close>

definition older_than :: "store \<Rightarrow> stmt \<Rightarrow> nat \<Rightarrow> real \<Rightarrow> row \<Rightarrow> bool" where
  "older_than st s i d r =
     (case julianday_of st (field r i) of
        None \<Rightarrow> False
      | Some j \<Rightarrow> julianday_now st s - j > d)"

fun exec_stmt :: "store \<Rightarrow> stmt \<Rightarrow> database \<Rightarrow> string + database" where
  "exec_stmt st (CreateTableIfNotExists t cols) db =
     (case find_table db t of
        Some tb \<Rightarrow> Inr db
      | None \<Rightarrow> Inr (db @ [(t, \<lparr>columns = cols, rows = []\<rparr>)]))"
| "exec_stmt st (DeleteOlderThan t c d) db =
     (case find_table db t of
        None \<Rightarrow> Inl (''no such table: '' @ t)
      | Some tb \<Rightarrow>
          (case column_position (columns tb) c of
             None \<Rightarrow> Inl (''no such column: '' @ c)
           | Some i \<Rightarrow>
               Inr (put_table db t (tb\<lparr>rows :=
                 filter (\<lambda>r. \<not> older_than st (DeleteOlderThan t c d) i d r) (rows tb)\<rparr>))))"

text \<open>\<open>QSqlQuery::exec\<close>: the error text when it returns false, the database after it.\<close>

definition q_exec :: "store \<Rightarrow> stmt \<Rightarrow> database \<Rightarrow> string + database" where
  "q_exec st s db = (case fault st s of Some e \<Rightarrow> Inl e | None \<Rightarrow> exec_stmt st s db)"

definition create_usages :: stmt where
  "create_usages = CreateTableIfNotExists ''usages''
     [(''input'', ''TEXT NOT NULL''),
      (''itemId'', ''TEXT''),
      (''timestamp'', ''DATETIME DEFAULT CURRENT_TIMESTAMP'')]"

definition create_runtimes :: stmt where
  "create_runtimes = CreateTableIfNotExists ''runtimes''
     [(''extensionId'', ''TEXT NOT NULL''),
      (''runtime'', ''INTEGER NOT NULL''),
      (''timestamp'', ''DATETIME DEFAULT CURRENT_TIMESTAMP'')]"

definition cleanup_usages :: stmt where
  "cleanup_usages = DeleteOlderThan ''usages'' ''timestamp'' 90"

definition cleanup_runtimes :: stmt where
  "cleanup_runtimes = DeleteOlderThan ''runtimes'' ''timestamp'' 7"

text \<open>The two \<^verbatim>\<open>CREATE TABLE IF NOT EXISTS\<close> statements, each fatal when it fails.\<close>

definition createTables :: "store \<Rightarrow> database \<Rightarrow> database prog" where
  "createTables st db =
     and_then (emit (SqlExec create_usages)) (\<lambda>_.
     case q_exec st create_usages db of
       Inl e \<Rightarrow>
         and_then (qFatal (''Unable to create table '' @ [squote] @ ''usages'' @ [squote] @ '': '' @ e))
           (\<lambda>_. ret db)
     | Inr db1 \<Rightarrow>
         and_then (emit (SqlExec create_runtimes)) (\<lambda>_.
         case q_exec st create_runtimes db1 of
           Inl e \<Rightarrow>
             and_then (qFatal (''Unable to create table '' @ [squote] @ ''runtimes'' @ [squote] @ '': '' @ e))
               (\<lambda>_. ret db1)
         | Inr db2 \<Rightarrow> ret db2))"

text \<open>The regular cleanup: two \<^verbatim>\<open>DELETE\<close> statements, each a warning when it fails.\<close>

definition cleanup :: "store \<Rightarrow> database \<Rightarrow> database prog" where
  "cleanup st db =
     and_then (emit (SqlExec cleanup_usages)) (\<lambda>_.
     and_then (case q_exec st cleanup_usages db of
             Inl e \<Rightarrow> and_then (qWarning ''Unable to cleanup usages table.'') (\<lambda>_. ret db)
           | Inr db1 \<Rightarrow> ret db1) (\<lambda>db1.
     and_then (emit (SqlExec cleanup_runtimes)) (\<lambda>_.
     case q_exec st cleanup_runtimes db1 of
       Inl e \<Rightarrow> and_then (qWarning ''Unable to cleanup runtimes table.'') (\<lambda>_. ret db1)
     | Inr db2 \<Rightarrow> ret db2)))"

definition initDatabase :: "string \<Rightarrow> store \<Rightarrow> database prog" where
  "initDatabase cache st =
     and_then (steps
       [qDebug ''Initializing database'',
        call ''QSqlDatabase::addDatabase'' [''QSQLITE''],
        if \<not> db_valid st then qFatal ''No sqlite available'' else skip,
        if \<not> db_transactions st then qFatal ''QSqlDriver::Transactions not available.'' else skip,
        call ''QSqlDatabase::setDatabaseName'' [filePath cache ''core.db''],
        call ''QSqlDatabase::open'' [],
        if \<not> db_open st then qFatal ''Unable to establish a database connection.'' else skip,
        call ''QSqlDatabase::transaction'' []]) (\<lambda>_.
     and_then (createTables st (core_db st)) (\<lambda>db1.
     and_then (cleanup st db1) (\<lambda>db2.
     and_then (call ''QSqlDatabase::commit'' []) (\<lambda>_. ret db2))))"


subsection \<open>The surroundings of one invocation\<close>

text \<open>
  The command line as \<open>QCommandLineParser\<close> hands it over. \<open>parser.process\<close> leaves the
  process by itself on \<^verbatim>\<open>--help\<close>, \<^verbatim>\<open>--version\<close> and an unknown option; the model starts
  from a command line that it accepted.
\<close>

record arguments =
  positionalArguments :: "string list"
  hotkey_option :: "string option"
  plugin_dirs_option :: "string option"

record standard_paths =
  cacheLocation :: string
  dataLocation :: string
  appConfigLocation :: string
  configLocation :: string
  homePath :: string

text \<open>
  The local socket as this invocation meets it: whether \<open>waitForConnected(500)\<close> returns true,
  the bytes the socket holds after \<open>waitForReadyRead(500)\<close> (none when the wait ran out),
  whether \<open>listen\<close> succeeds and the server's error text when it does not.
\<close>

record local_socket =
  waitForConnected :: bool
  reply :: string
  listen_ok :: bool
  errorString :: string

record file_answers =
  mkpath_ok :: "string \<Rightarrow> bool"
  oldcfg_exists :: bool
  newcfg_exists :: bool
  firstrun_in_cache :: bool
  firstrun_in_data :: bool
  version_exists :: bool
  version_readable :: bool
  lastUsedVersion :: string
  read_error :: string
  version_writable :: bool
  write_error :: string
  isDir :: "string \<Rightarrow> bool"
  canonicalFilePath :: "string \<Rightarrow> string"
  running_exists :: bool
  running_created :: bool

record session =
  toLocal8Bit :: "string \<Rightarrow> string"
  iconPath :: string
  first_run_yes :: bool
  note_shown :: bool
  settings_hotkey :: "string option"
  registerHotkey :: "string \<Rightarrow> bool"
  hotkey_error_yes :: bool
  exec_retval :: int

record env =
  commandline :: arguments
  paths :: standard_paths
  gateway :: local_socket
  files :: file_answers
  usage_store :: store
  desktop :: session

subsection \<open>\<open>AlbertApp::run\<close>, section by section\<close>

definition initApplication :: "session \<Rightarrow> unit prog" where
  "initApplication d =
     steps
       [call ''qInstallMessageHandler'' [''myMessageOutput''],
        qDebug ''Initializing application'',
        call ''QApplication'' [],
        call ''setApplicationName'' [''albert''],
        call ''setApplicationDisplayName'' [''Albert''],
        call ''setApplicationVersion'' [applicationVersion],
        call ''setQuitOnLastWindowClosed'' [''false''],
        call ''setWindowIcon'' [if iconPath d = [] then '':app_icon'' else iconPath d]]"

definition parseCommandline :: "unit prog" where
  "parseCommandline =
     steps
       [qDebug ''Parsing commandline'',
        call ''QCommandLineParser::process'' []]"

definition socketPath :: "standard_paths \<Rightarrow> string" where
  "socketPath p = cacheLocation p @ ''/socket''"

definition ipcSingleton ::
  "arguments \<Rightarrow> standard_paths \<Rightarrow> session \<Rightarrow> local_socket \<Rightarrow> unit prog" where
  "ipcSingleton a p d g =
     (let args = positionalArguments a in
      steps
        [qDebug ''Checking for other instances'',
         emit (ConnectToServer (socketPath p)),
         emit (WaitForConnected 500),
         if waitForConnected g then
           steps
             [if length args = 1 then
                steps
                  [emit (SocketWrite (toLocal8Bit d (args ! 0))),
                   emit SocketFlush,
                   emit (WaitForReadyRead 500),
                   if reply g \<noteq> [] then
                     steps [emit ReadAll, qInfo (debug_bytes (reply g))]
                   else skip]
              else qInfo ''There is another instance of albert running.'',
              emit SocketClose,
              exit_with EXIT_SUCCESS]
         else if length args = 1 then
           steps
             [qInfo ''There is no other instance of albert running.'',
              exit_with EXIT_FAILURE]
         else skip,
         emit (RemoveServer (socketPath p)),
         qDebug ''Creating IPC server'',
         emit (Listen (socketPath p)),
         if \<not> listen_ok g then
           qWarning (''Local server could not be created. IPC will not work! Reason: ''
                     @ debug_text (errorString g))
         else skip,
         emit (ConnectNewConnection ''dispatchMessage'')])"

definition mkpath_or_die :: "file_answers \<Rightarrow> string \<Rightarrow> unit prog" where
  "mkpath_or_die f location =
     steps
       [call ''QDir::mkpath'' [location],
        if \<not> mkpath_ok f location then qFatal (''Could not create dir: '' @ location)
        else skip]"

definition initPaths :: "standard_paths \<Rightarrow> file_answers \<Rightarrow> unit prog" where
  "initPaths p f =
     (let oldcfg = configLocation p @ ''/albert.conf'';
          newcfg = configLocation p @ ''/albert/albert.conf'' in
      steps
        [qDebug ''Initializing mandatory paths'',
         steps (map (mkpath_or_die f) [dataLocation p, cacheLocation p, appConfigLocation p]),
         call ''QSettings::setPath'' [appConfigLocation p],
         if oldcfg_exists f then
           steps
             [if newcfg_exists f then call ''QFile::remove'' [newcfg] else skip,
              call ''QFile::rename'' [oldcfg, newcfg]]
         else skip])"

text \<open>
  The value of this section is \<open>showSettingsWhenInitialized\<close>. The second \<open>rename\<close> is not
  under the test before it: the source has no braces there.
\<close>

definition detectFirstRun :: "standard_paths \<Rightarrow> file_answers \<Rightarrow> session \<Rightarrow> bool prog" where
  "detectFirstRun p f d =
     (let file = dataLocation p @ ''/last_used_version'' in
      and_then (steps
        [if firstrun_in_cache f then
           steps
             [qDebug (''Moving '' @ [squote] @ ''firstrun'' @ [squote] @ '' to new path''),
              call ''QFile::rename''
                [cacheLocation p @ ''/firstrun'', dataLocation p @ ''/firstrun'']]
         else skip,
         if firstrun_in_data f then
           qDebug (''Renaming '' @ [squote] @ ''firstrun'' @ [squote] @ '' to ''
                   @ [squote] @ ''last_used_version'' @ [squote])
         else skip,
         call ''QFile::rename'' [dataLocation p @ ''/firstrun'', file],
         qDebug ''Checking last used version'']) (\<lambda>_.
      and_then (if version_exists f then
              if version_readable f then
                and_then (steps
                  [call ''QFile::open'' [file, ''ReadOnly|Text''],
                   call ''QFile::close'' [file],
                   if section_at CHR ''.'' 1 applicationVersion
                        \<noteq> section_at CHR ''.'' 1 (lastUsedVersion f)
                   then call ''QMessageBox::exec'' [''Major version changed'']
                   else skip]) (\<lambda>_. ret False)
              else
                and_then (steps
                  [call ''QFile::open'' [file, ''ReadOnly|Text''],
                   qCritical (''Could not open file '' @ file @ '': '' @ read_error f
                              @ '',. Config migration may fail.'')]) (\<lambda>_. ret False)
            else
              and_then (call ''QMessageBox::exec'' [''First run'']) (\<lambda>_. ret (first_run_yes d)))
        (\<lambda>showSettingsWhenInitialized.
      and_then (steps
        [call ''QFile::open'' [file, ''WriteOnly|Text''],
         if version_writable f then
           steps [call ''QTextStream::write'' [file, applicationVersion],
                  call ''QFile::close'' [file]]
         else qCritical (''Could not open file '' @ file @ '': '' @ write_error f)])
        (\<lambda>_. ret showSettingsWhenInitialized))))"


text \<open>The plugin directories, on Linux.\<close>

definition pluginDirs :: "arguments \<Rightarrow> standard_paths \<Rightarrow> file_answers \<Rightarrow> string list" where
  "pluginDirs a p f =
     (case plugin_dirs_option a of
        Some v \<Rightarrow> split_on CHR '','' v
      | None \<Rightarrow>
          map (canonicalFilePath f)
            (filter (isDir f)
               (map (\<lambda>dir. filePath dir ''albert/plugins'')
                  [''/usr/lib/'', ''/usr/local/lib/'', ''/usr/lib64/'', ''/usr/local/lib64/'',
                   filePath (homePath p) ''.local/lib/'',
                   filePath (homePath p) ''.local/lib64/''])))"

text \<open>
  The call \<open>FrontendManager\<close> is \<open>frontendManager = new FrontendManager(pluginDirs)\<close>, the
  statement that sets the pointer \<open>dispatchMessage\<close> calls through.
\<close>

definition initComponents :: "arguments \<Rightarrow> standard_paths \<Rightarrow> file_answers \<Rightarrow> unit prog" where
  "initComponents a p f =
     steps
       [qDebug ''Initializing core components'',
        call ''FrontendManager'' (pluginDirs a p f),
        call ''ExtensionManager'' (pluginDirs a p f),
        call ''ExtensionManager::reloadExtensions'' [],
        call ''HotkeyManager'' [],
        call ''QueryManager'' []]"

definition buildTrayIcon :: "unit prog" where
  "buildTrayIcon =
     steps
       [qDebug ''Initializing tray icon'',
        call ''TrayIcon'' [],
        call ''QMenu'' [],
        call ''QAction'' [''Show''],
        call ''QAction'' [''Settings''],
        call ''QAction'' [''Quit''],
        call ''QAction::setIcon'' [''Show'', ''SP_TitleBarMaxButton''],
        call ''QAction::setIcon'' [''Settings'', ''SP_FileDialogDetailedView''],
        call ''QAction::setIcon'' [''Quit'', ''SP_TitleBarCloseButton''],
        call ''QMenu::addAction'' [''Show''],
        call ''QMenu::addAction'' [''Settings''],
        call ''QMenu::addSeparator'' [],
        call ''QMenu::addAction'' [''Quit''],
        call ''TrayIcon::setContextMenu'' []]"

definition standaloneNote :: "session \<Rightarrow> unit prog" where
  "standaloneNote d =
     (if \<not> note_shown d then
        steps
          [call ''QMessageBox::exec'' [''Note''],
           call ''QSettings::setValue'' [''standsalone_note_shown'', ''true'']]
      else skip)"

text \<open>
  The hotkey of the command line is fatal when it cannot be registered; the one of the
  settings asks whether to open the settings. The value is the new
  \<open>showSettingsWhenInitialized\<close>.
\<close>

definition setupHotkey :: "arguments \<Rightarrow> session \<Rightarrow> bool \<Rightarrow> bool prog" where
  "setupHotkey a d showSettingsWhenInitialized =
     and_then (qDebug ''Setting up hotkey'') (\<lambda>_.
     case hotkey_option a of
       Some hotkey \<Rightarrow>
         and_then (steps
           [call ''HotkeyManager::registerHotkey'' [hotkey],
            if \<not> registerHotkey d hotkey then
              qFatal (''Failed to set hotkey to '' @ toLocal8Bit d hotkey @ ''.'')
            else skip]) (\<lambda>_. ret showSettingsWhenInitialized)
     | None \<Rightarrow>
         (case settings_hotkey d of
            Some hotkey \<Rightarrow>
              and_then (call ''HotkeyManager::registerHotkey'' [hotkey]) (\<lambda>_.
              if \<not> registerHotkey d hotkey then
                and_then (call ''QMessageBox::exec'' [''Error'']) (\<lambda>_.
                ret (if hotkey_error_yes d then True else showSettingsWhenInitialized))
              else ret showSettingsWhenInitialized)
          | None \<Rightarrow> ret showSettingsWhenInitialized))"

definition misc :: "standard_paths \<Rightarrow> file_answers \<Rightarrow> bool \<Rightarrow> unit prog" where
  "misc p f showSettingsWhenInitialized =
     (let running = cacheLocation p @ ''/running'' in
      steps
        [qDebug ''Setup signal handlers'',
         call ''signal'' [''SIGINT''],
         call ''signal'' [''SIGTERM''],
         call ''signal'' [''SIGHUP''],
         call ''signal'' [''SIGPIPE''],
         qDebug ''Creating running indicator file'',
         if running_exists f then qWarning ''Application has not been terminated graciously.''
         else
           steps
             [call ''QFile::open'' [running, ''WriteOnly''],
              if \<not> running_created f then qWarning (''Could not create file: '' @ debug_text running)
              else skip,
              call ''QFile::close'' [running]],
         qDebug ''Creating settings widget'',
         call ''SettingsWidget'' [],
         if showSettingsWhenInitialized then call ''SettingsWidget::show'' [] else skip])"

definition connectFrontend :: "unit prog" where
  "connectFrontend =
     steps
       [call ''connect'' [''HotkeyManager::hotKeyPressed'', ''Frontend::toggleVisibility''],
        call ''connect'' [''QueryManager::resultsReady'', ''Frontend::setModel''],
        call ''connect'' [''QAction::triggered'', ''Frontend::setVisible''],
        call ''connect'' [''TrayIcon::activated'', ''Frontend::toggleVisibility''],
        call ''connect'' [''Frontend::settingsWidgetRequested'', ''SettingsWidget::setVisible''],
        call ''connect'' [''Frontend::settingsWidgetRequested'', ''SettingsWidget::raise''],
        call ''connect'' [''Frontend::widgetShown'', ''QueryManager::setupSession''],
        call ''connect'' [''Frontend::widgetHidden'', ''QueryManager::teardownSession''],
        call ''connect'' [''Frontend::inputChanged'', ''QueryManager::startQuery'']]"

definition signaling :: "unit prog" where
  "signaling =
     steps
       [qDebug ''Setting up signals'',
        call ''connect'' [''QAction::triggered'', ''SettingsWidget::show''],
        call ''connect'' [''QAction::triggered'', ''SettingsWidget::raise''],
        call ''connect'' [''QAction::triggered'', ''QApplication::quit''],
        connectFrontend,
        call ''connect'' [''FrontendManager::frontendChanged'', ''connectFrontend'']]"

text \<open>
  \<open>Exec\<close> is the whole event loop, the slots it runs included: \<open>dispatchMessage\<close> once for
  every connection that arrives.
\<close>

definition eventloop :: "unit prog" where
  "eventloop = steps [qDebug ''Entering eventloop'', emit Exec]"

definition finalize :: "standard_paths \<Rightarrow> unit prog" where
  "finalize p =
     steps
       [qDebug ''Cleaning up core components'',
        call ''delete'' [''settingsWidget''],
        call ''delete'' [''trayIconMenu''],
        call ''delete'' [''trayIcon''],
        call ''delete'' [''queryManager''],
        call ''delete'' [''hotkeyManager''],
        call ''delete'' [''extensionManager''],
        call ''delete'' [''frontendManager''],
        qDebug ''Shutting down IPC server'',
        call ''QLocalServer::close'' [],
        qDebug ''Deleting running indicator file'',
        call ''QFile::remove'' [cacheLocation p @ ''/running''],
        qDebug ''Quit'']"

text \<open>
  What follows the singleton mechanism. It reads nothing of the local socket.
\<close>

definition initialize :: "arguments \<Rightarrow> standard_paths \<Rightarrow> file_answers \<Rightarrow> store \<Rightarrow> session \<Rightarrow> int prog" where
  "initialize a p f st d =
     and_then (initPaths p f) (\<lambda>_.
     and_then (detectFirstRun p f d) (\<lambda>show1.
     and_then (initDatabase (cacheLocation p) st) (\<lambda>db.
     and_then (steps [initComponents a p f, buildTrayIcon, standaloneNote d]) (\<lambda>_.
     and_then (setupHotkey a d show1) (\<lambda>show2.
     and_then (steps [misc p f show2, signaling, eventloop, finalize p]) (\<lambda>_.
     ret (exec_retval d)))))))"

definition run :: "env \<Rightarrow> int prog" where
  "run e =
     and_then (steps
       [initApplication (desktop e),
        parseCommandline,
        ipcSingleton (commandline e) (paths e) (desktop e) (gateway e)]) (\<lambda>_.
     initialize (commandline e) (paths e) (files e) (usage_store e) (desktop e))"


subsection \<open>Words for the statements\<close>

text \<open>The calls of \<open>run\<close> that come before it touches the local socket.\<close>

definition preamble :: "session \<Rightarrow> event list" where
  "preamble d =
     fst (steps [initApplication d, parseCommandline, qDebug ''Checking for other instances''])"

definition listen_warning :: "local_socket \<Rightarrow> event" where
  "listen_warning g =
     Fprintf Stderr ''WARN''
       (''Local server could not be created. IPC will not work! Reason: ''
        @ debug_text (errorString g))"








definition usages_table :: "row list \<Rightarrow> table" where
  "usages_table rs =
     \<lparr>columns =
        [(''input'', ''TEXT NOT NULL''),
         (''itemId'', ''TEXT''),
         (''timestamp'', ''DATETIME DEFAULT CURRENT_TIMESTAMP'')],
      rows = rs\<rparr>"

definition runtimes_table :: "row list \<Rightarrow> table" where
  "runtimes_table rs =
     \<lparr>columns =
        [(''extensionId'', ''TEXT NOT NULL''),
         (''runtime'', ''INTEGER NOT NULL''),
         (''timestamp'', ''DATETIME DEFAULT CURRENT_TIMESTAMP'')],
      rows = rs\<rparr>"







subsection \<open>A concrete invocation\<close>

text \<open>
  Noon of 1 November 2026 is the Julian day 2461346. The store holds one usage of 2 August
  (91 days before), one of 4 August (89 days), one runtime of 24 October (8 days) and one
  of 26 October (6 days).
\<close>

definition example_dates :: "sqlval \<Rightarrow> real option" where
  "example_dates =
     map_of
       [(SqlText ''2026-08-02 12:00:00'', 2461255),
        (SqlText ''2026-08-04 12:00:00'', 2461257),
        (SqlText ''2026-10-24 12:00:00'', 2461338),
        (SqlText ''2026-10-26 12:00:00'', 2461340)]"

definition usage_91 :: row where
  "usage_91 =
     [SqlText ''fire'', SqlText ''applications.firefox'', SqlText ''2026-08-02 12:00:00'']"

definition usage_89 :: row where
  "usage_89 =
     [SqlText ''term'', SqlText ''applications.xterm'', SqlText ''2026-08-04 12:00:00'']"

definition runtime_8 :: row where
  "runtime_8 = [SqlText ''applications'', SqlInteger 1200, SqlText ''2026-10-24 12:00:00'']"

definition runtime_6 :: row where
  "runtime_6 = [SqlText ''files'', SqlInteger 48000, SqlText ''2026-10-26 12:00:00'']"

definition example_db :: database where
  "example_db =
     [(''usages'', usages_table [usage_91, usage_89]),
      (''runtimes'', runtimes_table [runtime_8, runtime_6])]"


definition example_store :: store where
  "example_store =
     \<lparr>db_valid = True, db_transactions = True, db_open = True,
      core_db = example_db,
      julianday = example_dates,
      julianday_now = (\<lambda>s. 2461346),
      fault = (\<lambda>s. None)\<rparr>"

definition example_paths :: standard_paths where
  "example_paths =
     \<lparr>cacheLocation = ''/home/u/.cache/albert'',
      dataLocation = ''/home/u/.local/share/albert'',
      appConfigLocation = ''/home/u/.config/albert'',
      configLocation = ''/home/u/.config'',
      homePath = ''/home/u''\<rparr>"

definition example_files :: file_answers where
  "example_files =
     \<lparr>mkpath_ok = (\<lambda>location. True),
      oldcfg_exists = False, newcfg_exists = True,
      firstrun_in_cache = False, firstrun_in_data = False,
      version_exists = True, version_readable = True,
      lastUsedVersion = ''v0.12.0'', read_error = [],
      version_writable = True, write_error = [],
      isDir = (\<lambda>dir. dir = ''/usr/lib/albert/plugins''),
      canonicalFilePath = (\<lambda>dir. dir),
      running_exists = False, running_created = True\<rparr>"

definition example_session :: session where
  "example_session =
     \<lparr>toLocal8Bit = (\<lambda>text. text),
      iconPath = [],
      first_run_yes = False,
      note_shown = True,
      settings_hotkey = Some ''Ctrl+Space'',
      registerHotkey = (\<lambda>hotkey. True),
      hotkey_error_yes = False,
      exec_retval = 0\<rparr>"

text \<open>
  \<open>example_env args g s\<close>: the invocation with positional arguments \<open>args\<close> that meets
  the local socket \<open>g\<close> and the store \<open>s\<close>.
\<close>

definition example_env :: "string list \<Rightarrow> local_socket \<Rightarrow> store \<Rightarrow> env" where
  "example_env args g s =
     \<lparr>commandline =
        \<lparr>positionalArguments = args, hotkey_option = None, plugin_dirs_option = None\<rparr>,
      paths = example_paths,
      gateway = g,
      files = example_files,
      usage_store = s,
      desktop = example_session\<rparr>"

definition no_instance :: local_socket where
  "no_instance =
     \<lparr>waitForConnected = False, reply = [], listen_ok = True, errorString = []\<rparr>"

definition no_instance_no_bind :: local_socket where
  "no_instance_no_bind =
     \<lparr>waitForConnected = False, reply = [], listen_ok = False,
      errorString = ''QLocalServer::listen: Permission denied''\<rparr>"

definition running_instance :: "string \<Rightarrow> local_socket" where
  "running_instance answer =
     \<lparr>waitForConnected = True, reply = answer, listen_ok = False, errorString = []\<rparr>"

text \<open>
  The first start: there is no \<open>last_used_version\<close> file, so \<open>run\<close> shows the first-run
  dialog.
\<close>

definition first_run_env :: env where
  "first_run_env =
     (example_env [] no_instance example_store)
       \<lparr>files := example_files\<lparr>version_exists := False\<rparr>\<rparr>"

definition first_run_dialog :: event where
  "first_run_dialog = Call ''QMessageBox::exec'' [''First run'']"

text \<open>
  Reading back what \<open>debug_bytes\<close> printed, as a C string literal is read: the bytes between
  the first double quote and the closing one.
\<close>

definition unescape :: "char \<Rightarrow> char" where
  "unescape e =
     (if e = CHR ''b'' then CHR 0x08
      else if e = CHR ''f'' then CHR 0x0C
      else if e = CHR ''n'' then CHR 0x0A
      else if e = CHR ''r'' then CHR 0x0D
      else if e = CHR ''t'' then CHR 0x09
      else e)"

fun read_escaped :: "string \<Rightarrow> string" where
  "read_escaped [] = []"
| "read_escaped [c] = (if c = dquote \<or> c = backslash then [] else [c])"
| "read_escaped (c # e # cs) =
     (if c = dquote then (if e = dquote then read_escaped cs else [])
      else if c = backslash then
        (if e = CHR ''x'' then
           (case cs of
              h # l # rest \<Rightarrow>
                (case (fromHex h, fromHex l) of
                   (Some a, Some b) \<Rightarrow> char_of (16 * a + b) # read_escaped rest
                 | _ \<Rightarrow> [])
            | _ \<Rightarrow> [])
         else unescape e # read_escaped cs)
      else c # read_escaped (e # cs))"

definition read_literal :: "string \<Rightarrow> string option" where
  "read_literal line =
     (case line of
        [] \<Rightarrow> None
      | q # rest \<Rightarrow> if q = dquote then Some (read_escaped rest) else None)"

text \<open>A byte that the debug stream prints as it is.\<close>

definition plain :: "char \<Rightarrow> bool" where
  "plain c = (isPrintable c \<and> c \<noteq> CHR 0x22 \<and> c \<noteq> CHR 0x5C)"

section \<open>Properties\<close>

subsection \<open>Sequencing\<close>

lemmas prog_defs = and_then_def skip_def emit_def call_def ret_def exit_with_def
  qDebug_def qInfo_def qWarning_def qCritical_def qFatal_def

lemmas example_defs = example_env_def example_paths_def example_files_def example_session_def
  example_store_def example_db_def no_instance_def no_instance_no_bind_def running_instance_def
  usages_table_def runtimes_table_def

lemma fst_and_then: "fst (and_then p k) = fst p @ (case snd p of Inl c \<Rightarrow> [] | Inr a \<Rightarrow> fst (k a))"
  by (cases p) (simp add: and_then_def split: sum.splits prod.splits)

lemma snd_and_then: "snd (and_then p k) = (case snd p of Inl c \<Rightarrow> Inl c | Inr a \<Rightarrow> snd (k a))"
  by (cases p) (simp add: and_then_def split: sum.splits prod.splits)

subsection \<open>What the debug stream prints\<close>

lemma dquote_neq_backslash: "dquote \<noteq> backslash"
  by (simp add: dquote_def backslash_def)

lemma fromHex_digits:
  assumes "k < 16"
  shows "fromHex (''0123456789ABCDEF'' ! k) = Some k"
proof -
  from assms have "k \<in> {0, 1, 2, 3, 4, 5, 6, 7, 8, 9, 10, 11, 12, 13, 14, 15}"
    by (simp add: numeral_eq_Suc less_Suc_eq) 
  then show ?thesis
    by (elim insertE emptyE) (simp_all add: fromHex_def)
qed

lemma fromHex_toHexUpper: "fromHex (toHexUpper n) = Some (n mod 16)"
  unfolding toHexUpper_def by (rule fromHex_digits) simp

lemma nibble_bound: "n < 256 \<Longrightarrow> n div 16 < (16::nat)"
  by arith

lemma byte_of_nibbles:
  "char_of (16 * ((of_char p :: nat) div 16 mod 16) + (of_char p :: nat) mod 16) = p"
proof -
  have "(of_char p :: nat) div 16 < 16"
    by (rule nibble_bound) simp
  then have "16 * ((of_char p :: nat) div 16 mod 16) + (of_char p :: nat) mod 16 = of_char p"
    by simp
  then show ?thesis
    by simp
qed

lemma read_skip: "read_escaped (dquote # dquote # xs) = read_escaped xs"
  by simp

lemma read_plain:
  assumes "c \<noteq> dquote" and "c \<noteq> backslash" and "xs \<noteq> []"
  shows "read_escaped (c # xs) = c # read_escaped xs"
  using assms by (cases xs) simp_all

lemma read_short:
  assumes "e \<noteq> CHR ''x''"
  shows "read_escaped (backslash # e # xs) = unescape e # read_escaped xs"
  using assms dquote_neq_backslash by simp

lemma read_hex:
  assumes "fromHex h = Some a" and "fromHex l = Some b"
  shows "read_escaped (backslash # CHR ''x'' # h # l # xs) = char_of (16 * a + b) # read_escaped xs"
  using assms dquote_neq_backslash by simp

lemma read_escaped_putEscapedString:
  "read_escaped (putEscapedString False after_hex bytes @ [dquote]) = bytes"
proof (induction bytes arbitrary: after_hex)
  case Nil
  show ?case
    by simp
next
  case (Cons p ps)
  let ?body = "\<lambda>l. putEscapedString False l ps @ [dquote]"
  define enc where "enc =
      (if isPrintable p \<and> p \<noteq> backslash \<and> p \<noteq> dquote then
        p # putEscapedString False False ps
      else if p = dquote \<or> p = backslash then
        backslash # p # putEscapedString False False ps
      else if p = CHR 0x08 then backslash # CHR ''b'' # putEscapedString False False ps
      else if p = CHR 0x0C then backslash # CHR ''f'' # putEscapedString False False ps
      else if p = CHR 0x0A then backslash # CHR ''n'' # putEscapedString False False ps
      else if p = CHR 0x0D then backslash # CHR ''r'' # putEscapedString False False ps
      else if p = CHR 0x09 then backslash # CHR ''t'' # putEscapedString False False ps
      else
        backslash # CHR ''x'' #
        toHexUpper (of_char p div 16) # toHexUpper (of_char p) #
        putEscapedString False True ps)"
  have unfold: "\<And>l. putEscapedString False l (p # ps) =
      (if l \<and> fromHex p \<noteq> None then [dquote, dquote] else []) @ enc"
    by (simp add: enc_def)
  have body: "read_escaped (enc @ [dquote]) = p # ps"
  proof -
    consider (plain) "isPrintable p \<and> p \<noteq> backslash \<and> p \<noteq> dquote"
      | (quote) "p = dquote \<or> p = backslash"
      | (b) "p = CHR 0x08" | (f) "p = CHR 0x0C" | (n) "p = CHR 0x0A" | (r) "p = CHR 0x0D"
      | (t) "p = CHR 0x09"
      | (hex) "\<not> (isPrintable p \<and> p \<noteq> backslash \<and> p \<noteq> dquote)" "\<not> (p = dquote \<or> p = backslash)"
          "p \<noteq> CHR 0x08" "p \<noteq> CHR 0x0C" "p \<noteq> CHR 0x0A" "p \<noteq> CHR 0x0D" "p \<noteq> CHR 0x09"
      by blast
    then show ?thesis
    proof cases
      case plain
      then have "enc @ [dquote] = p # ?body False"
        by (simp add: enc_def)
      then show ?thesis
        using plain read_plain [of p "?body False"] Cons.IH [of False] by simp
    next
      case quote
      then have "enc @ [dquote] = backslash # p # ?body False"
        by (auto simp: enc_def)
      moreover from quote have "p \<noteq> CHR ''x''" "unescape p = p"
        by (auto simp: unescape_def dquote_def backslash_def)
      ultimately show ?thesis
        using read_short [of p "?body False"] Cons.IH [of False] by simp
    next
      case b
      then have "enc @ [dquote] = backslash # CHR ''b'' # ?body False"
        by (simp add: enc_def dquote_def backslash_def isPrintable_def)
      then show ?thesis
        using b read_short [of "CHR ''b''" "?body False"] Cons.IH [of False]
        by (simp add: unescape_def)
    next
      case f
      then have "enc @ [dquote] = backslash # CHR ''f'' # ?body False"
        by (simp add: enc_def dquote_def backslash_def isPrintable_def)
      then show ?thesis
        using f read_short [of "CHR ''f''" "?body False"] Cons.IH [of False]
        by (simp add: unescape_def)
    next
      case n
      then have "enc @ [dquote] = backslash # CHR ''n'' # ?body False"
        by (simp add: enc_def dquote_def backslash_def isPrintable_def)
      then show ?thesis
        using n read_short [of "CHR ''n''" "?body False"] Cons.IH [of False]
        by (simp add: unescape_def)
    next
      case r
      then have "enc @ [dquote] = backslash # CHR ''r'' # ?body False"
        by (simp add: enc_def dquote_def backslash_def isPrintable_def)
      then show ?thesis
        using r read_short [of "CHR ''r''" "?body False"] Cons.IH [of False]
        by (simp add: unescape_def)
    next
      case t
      then have "enc @ [dquote] = backslash # CHR ''t'' # ?body False"
        by (simp add: enc_def dquote_def backslash_def isPrintable_def)
      then show ?thesis
        using t read_short [of "CHR ''t''" "?body False"] Cons.IH [of False]
        by (simp add: unescape_def)
    next
      case hex
      then have "enc @ [dquote] = backslash # CHR ''x'' # toHexUpper (of_char p div 16)
              # toHexUpper (of_char p) # ?body True"
        by (simp add: enc_def)
      moreover have "read_escaped (backslash # CHR ''x'' # toHexUpper (of_char p div 16)
              # toHexUpper (of_char p) # ?body True)
            = char_of (16 * ((of_char p :: nat) div 16 mod 16) + (of_char p :: nat) mod 16)
              # read_escaped (?body True)"
        by (rule read_hex) (rule fromHex_toHexUpper)+
      ultimately show ?thesis
        using Cons.IH [of True] by (simp only: byte_of_nibbles)
    qed
  qed
  show ?case
  proof (cases "after_hex \<and> fromHex p \<noteq> None")
    case True
    then have "putEscapedString False after_hex (p # ps) @ [dquote]
        = dquote # dquote # (enc @ [dquote])"
      by (simp add: unfold del: putEscapedString.simps)
    then show ?thesis
      by (simp only: read_skip body)
  next
    case False
    then have "putEscapedString False after_hex (p # ps) @ [dquote] = enc @ [dquote]"
      by (simp add: unfold del: putEscapedString.simps)
    then show ?thesis
      by (simp only: body)
  qed
qed

lemma read_literal_debug_bytes: "read_literal (debug_bytes bytes) = Some bytes"
  by (simp add: read_literal_def debug_bytes_def read_escaped_putEscapedString)

lemma putEscapedString_plain:
  assumes "list_all plain bytes"
  shows "putEscapedString False False bytes = bytes"
  using assms by (induction bytes) (simp_all add: plain_def dquote_def backslash_def)

lemma debug_bytes_plain:
  assumes "list_all plain bytes"
  shows "debug_bytes bytes = CHR 0x22 # bytes @ [CHR 0x22]"
  using putEscapedString_plain [OF assms] by (simp add: debug_bytes_def dquote_def)

lemma plain_acknowledgements:
  "list_all plain ''Application set visible.''"
  "list_all plain ''Application set invisible.''"
  "list_all plain ''Visibility toggled.''"
  "list_all plain ''Command not supported.''"
  by (simp_all add: plain_def isPrintable_def)

subsection \<open>The slot that serves a connection\<close>

lemma sublist_not_supported: "sublist ''not supported'' ''Command not supported.''"
proof -
  have "''Command not supported.'' = ''Command '' @ ''not supported'' @ ''.''"
    by simp
  then show ?thesis
    unfolding sublist_def by blast
qed

text \<open>
  Once \<open>frontendManager\<close> is set, a connection that delivers bytes within the wait is
  served by comparing the decoded text with the three command words: \<open>show\<close> sets the
  front-end visible, \<open>hide\<close> sets it invisible, \<open>toggle\<close> toggles it, each followed by an
  acknowledgement written to the socket. Any other text gets a reply that contains
  \<open>not supported\<close> and no visibility call, whether the pointer is set or not. In each of
  these cases exactly one reply is written, and the socket is then flushed, closed and
  handed to deletion.
\<close>

lemma dispatchMessage_served:
  assumes "delivered socket \<noteq> []"
  shows "(frontendManager g \<noteq> None \<and> fromLocal8Bit socket (delivered socket) = ''show'' \<longrightarrow>
           dispatchMessage g socket =
             ([WaitForReadyRead 500, ReadAll, SetVisible True,
               SocketWrite ''Application set visible.'',
               SocketFlush, SocketClose, DeleteLater], SlotReturned))
       \<and> (frontendManager g \<noteq> None \<and> fromLocal8Bit socket (delivered socket) = ''hide'' \<longrightarrow>
           dispatchMessage g socket =
             ([WaitForReadyRead 500, ReadAll, SetVisible False,
               SocketWrite ''Application set invisible.'',
               SocketFlush, SocketClose, DeleteLater], SlotReturned))
       \<and> (frontendManager g \<noteq> None \<and> fromLocal8Bit socket (delivered socket) = ''toggle'' \<longrightarrow>
           dispatchMessage g socket =
             ([WaitForReadyRead 500, ReadAll, ToggleVisibility,
               SocketWrite ''Visibility toggled.'',
               SocketFlush, SocketClose, DeleteLater], SlotReturned))
       \<and> (fromLocal8Bit socket (delivered socket) \<notin> {''show'', ''hide'', ''toggle''} \<longrightarrow>
           (\<exists>r. sublist ''not supported'' r \<and>
              dispatchMessage g socket =
                ([WaitForReadyRead 500, ReadAll, SocketWrite r,
                  SocketFlush, SocketClose, DeleteLater], SlotReturned)))"
proof (intro conjI impI)
  assume "fromLocal8Bit socket (delivered socket) \<notin> {''show'', ''hide'', ''toggle''}"
  then have "dispatchMessage g socket =
      ([WaitForReadyRead 500, ReadAll, SocketWrite ''Command not supported.'',
        SocketFlush, SocketClose, DeleteLater], SlotReturned)"
    using assms by (simp add: dispatchMessage_def Let_def)
  then show "\<exists>r. sublist ''not supported'' r \<and>
              dispatchMessage g socket =
                ([WaitForReadyRead 500, ReadAll, SocketWrite r,
                  SocketFlush, SocketClose, DeleteLater], SlotReturned)"
    using sublist_not_supported by blast
qed (use assms in \<open>auto simp: dispatchMessage_def Let_def\<close>)

text \<open>
  C1: the claim does not hold of the code. \<open>run\<close> connects the slot to the server before it
  constructs the front-end manager, and the first-run dialog in between runs an event loop.
  On a first start with a successful \<open>listen\<close>, the first 25 calls of \<open>run\<close> end with the
  dialog and hold the connection of the slot, and the front-end manager is constructed only
  among the later ones; and served while the pointer is still null, a connection that delivers \<open>show\<close>, \<open>hide\<close> or
  \<open>toggle\<close> ends in the call through the null pointer, after the read: no visibility call,
  no acknowledgement, no flush, no close.
\<close>

theorem dispatchMessage_before_frontendManager:
  "listen_ok (gateway first_run_env)
   \<and> take 25 (fst (run first_run_env)) =
       [Call ''qInstallMessageHandler'' [''myMessageOutput''],
        Fprintf Stdout ''DEBG'' ''Initializing application'',
        Call ''QApplication'' [],
        Call ''setApplicationName'' [''albert''],
        Call ''setApplicationDisplayName'' [''Albert''],
        Call ''setApplicationVersion'' [''v0.12.0''],
        Call ''setQuitOnLastWindowClosed'' [''false''],
        Call ''setWindowIcon'' ['':app_icon''],
        Fprintf Stdout ''DEBG'' ''Parsing commandline'',
        Call ''QCommandLineParser::process'' [],
        Fprintf Stdout ''DEBG'' ''Checking for other instances'',
        ConnectToServer ''/home/u/.cache/albert/socket'',
        WaitForConnected 500,
        RemoveServer ''/home/u/.cache/albert/socket'',
        Fprintf Stdout ''DEBG'' ''Creating IPC server'',
        Listen ''/home/u/.cache/albert/socket'',
        ConnectNewConnection ''dispatchMessage'',
        Fprintf Stdout ''DEBG'' ''Initializing mandatory paths'',
        Call ''QDir::mkpath'' [''/home/u/.local/share/albert''],
        Call ''QDir::mkpath'' [''/home/u/.cache/albert''],
        Call ''QDir::mkpath'' [''/home/u/.config/albert''],
        Call ''QSettings::setPath'' [''/home/u/.config/albert''],
        Call ''QFile::rename''
          [''/home/u/.local/share/albert/firstrun'',
           ''/home/u/.local/share/albert/last_used_version''],
        Fprintf Stdout ''DEBG'' ''Checking last used version'',
        Call ''QMessageBox::exec'' [''First run'']]
   \<and> Call ''FrontendManager'' [''/usr/lib/albert/plugins'']
       \<in> set (drop 25 (fst (run first_run_env)))
   \<and> dispatchMessage \<lparr>frontendManager = None\<rparr>
        \<lparr>delivered = ''show'', fromLocal8Bit = (\<lambda>bytes. bytes)\<rparr>
       = ([WaitForReadyRead 500, ReadAll], NullDereference)
   \<and> dispatchMessage \<lparr>frontendManager = None\<rparr>
        \<lparr>delivered = ''hide'', fromLocal8Bit = (\<lambda>bytes. bytes)\<rparr>
       = ([WaitForReadyRead 500, ReadAll], NullDereference)
   \<and> dispatchMessage \<lparr>frontendManager = None\<rparr>
        \<lparr>delivered = ''toggle'', fromLocal8Bit = (\<lambda>bytes. bytes)\<rparr>
       = ([WaitForReadyRead 500, ReadAll], NullDereference)"
  by (simp add: dispatchMessage_def first_run_env_def run_def initialize_def
      initApplication_def parseCommandline_def ipcSingleton_def initPaths_def
      mkpath_or_die_def detectFirstRun_def initDatabase_def createTables_def cleanup_def
      initComponents_def pluginDirs_def buildTrayIcon_def standaloneNote_def
      setupHotkey_def misc_def connectFrontend_def signaling_def eventloop_def
      finalize_def example_defs prog_defs q_exec_def create_usages_def
      create_runtimes_def cleanup_usages_def cleanup_runtimes_def Let_def section_at_def
      applicationVersion_def filePath_def same_name_def to_lower_def socketPath_def
      field_def older_than_def julianday_of_def example_dates_def usage_91_def
      usage_89_def runtime_8_def runtime_6_def)

text \<open>
  C10: a connection that delivers no bytes within the wait gets no reply at all, causes no
  visibility call, and is flushed, closed and handed to deletion, whether the front-end
  manager exists or not.
\<close>

theorem dispatchMessage_silent:
  assumes "delivered socket = []"
  shows "dispatchMessage g socket =
           ([WaitForReadyRead 500, SocketFlush, SocketClose, DeleteLater], SlotReturned)
       \<and> written (fst (dispatchMessage g socket)) = []
       \<and> filter is_visibility (fst (dispatchMessage g socket)) = []"
  using assms by (simp add: dispatchMessage_def)

theorem dispatchMessage_silent_witness:
  "delivered \<lparr>delivered = [], fromLocal8Bit = (\<lambda>bytes. bytes)\<rparr> = []
   \<and> dispatchMessage \<lparr>frontendManager = Some FrontendManager\<rparr>
        \<lparr>delivered = [], fromLocal8Bit = (\<lambda>bytes. bytes)\<rparr> =
       ([WaitForReadyRead 500, SocketFlush, SocketClose, DeleteLater], SlotReturned)
   \<and> dispatchMessage \<lparr>frontendManager = None\<rparr>
        \<lparr>delivered = [], fromLocal8Bit = (\<lambda>bytes. bytes)\<rparr> =
       ([WaitForReadyRead 500, SocketFlush, SocketClose, DeleteLater], SlotReturned)
   \<and> written (fst (dispatchMessage \<lparr>frontendManager = None\<rparr>
        \<lparr>delivered = [], fromLocal8Bit = (\<lambda>bytes. bytes)\<rparr>)) = []"
  using dispatchMessage_silent
      [of "\<lparr>delivered = [], fromLocal8Bit = (\<lambda>bytes. bytes)\<rparr>"
          "\<lparr>frontendManager = Some FrontendManager\<rparr>"]
    dispatchMessage_silent
      [of "\<lparr>delivered = [], fromLocal8Bit = (\<lambda>bytes. bytes)\<rparr>"
          "\<lparr>frontendManager = None\<rparr>"]
  by simp

subsection \<open>The singleton mechanism\<close>

text \<open>
  C2: an invocation that connects and carries exactly one positional argument writes the
  local 8-bit form of that argument to the socket and nothing else, flushes, waits up to
  500 ms, prints the reply when bytes are there, closes the socket and exits with
  \<open>EXIT_SUCCESS\<close>. When the wait ran out without bytes nothing is printed and the exit
  status is the same. What is printed is one info line: the reply as the debug stream
  writes a byte array. Read back as a string literal that line is the reply, byte for
  byte; and for a reply of plain printable bytes, as each of the four replies of
  \<open>dispatchMessage\<close> is, the line is the reply itself between two double quotes.
\<close>

theorem run_forwards_command:
  assumes "waitForConnected (gateway e)" and "positionalArguments (commandline e) = [token]"
  shows "fst (run e) =
           preamble (desktop e) @
           [ConnectToServer (socketPath (paths e)), WaitForConnected 500,
            SocketWrite (toLocal8Bit (desktop e) token), SocketFlush, WaitForReadyRead 500] @
           (if reply (gateway e) \<noteq> []
            then [ReadAll, Fprintf Stdout ''INFO'' (debug_bytes (reply (gateway e)))] else []) @
           [SocketClose]
       \<and> snd (run e) = Inl EXIT_SUCCESS \<and> EXIT_SUCCESS = 0
       \<and> read_literal (debug_bytes (reply (gateway e))) = Some (reply (gateway e))
       \<and> (list_all plain (reply (gateway e)) \<longrightarrow>
            debug_bytes (reply (gateway e)) = CHR 0x22 # reply (gateway e) @ [CHR 0x22])
       \<and> list_all plain ''Application set visible.''
       \<and> list_all plain ''Application set invisible.''
       \<and> list_all plain ''Visibility toggled.''
       \<and> list_all plain ''Command not supported.''"
proof -
  have "fst (run e) =
           preamble (desktop e) @
           [ConnectToServer (socketPath (paths e)), WaitForConnected 500,
            SocketWrite (toLocal8Bit (desktop e) token), SocketFlush, WaitForReadyRead 500] @
           (if reply (gateway e) \<noteq> []
            then [ReadAll, Fprintf Stdout ''INFO'' (debug_bytes (reply (gateway e)))] else []) @
           [SocketClose]
       \<and> snd (run e) = Inl EXIT_SUCCESS \<and> EXIT_SUCCESS = 0"
    using assms
    by (simp add: run_def ipcSingleton_def initApplication_def parseCommandline_def
        preamble_def prog_defs EXIT_SUCCESS_def Let_def)
  then show ?thesis
    using read_literal_debug_bytes [of "reply (gateway e)"]
      debug_bytes_plain [of "reply (gateway e)"] plain_acknowledgements
    by blast
qed

theorem run_forwards_command_witness:
  "waitForConnected (gateway (example_env [''toggle''] (running_instance ''Visibility toggled.'') example_store))
   \<and> positionalArguments
       (commandline (example_env [''toggle''] (running_instance ''Visibility toggled.'') example_store))
       = [''toggle'']
   \<and> fst (run (example_env [''toggle''] (running_instance ''Visibility toggled.'') example_store)) =
       [Call ''qInstallMessageHandler'' [''myMessageOutput''],
        Fprintf Stdout ''DEBG'' ''Initializing application'',
        Call ''QApplication'' [],
        Call ''setApplicationName'' [''albert''],
        Call ''setApplicationDisplayName'' [''Albert''],
        Call ''setApplicationVersion'' [''v0.12.0''],
        Call ''setQuitOnLastWindowClosed'' [''false''],
        Call ''setWindowIcon'' ['':app_icon''],
        Fprintf Stdout ''DEBG'' ''Parsing commandline'',
        Call ''QCommandLineParser::process'' [],
        Fprintf Stdout ''DEBG'' ''Checking for other instances'',
        ConnectToServer ''/home/u/.cache/albert/socket'',
        WaitForConnected 500,
        SocketWrite ''toggle'',
        SocketFlush,
        WaitForReadyRead 500,
        ReadAll,
        Fprintf Stdout ''INFO'' (CHR 0x22 # ''Visibility toggled.'' @ [CHR 0x22]),
        SocketClose]
   \<and> snd (run (example_env [''toggle''] (running_instance ''Visibility toggled.'') example_store))
       = Inl 0
   \<and> waitForConnected (gateway (example_env [''show''] (running_instance [CHR ''o'', CHR ''k'', CHR 0x0A]) example_store))
   \<and> positionalArguments
       (commandline (example_env [''show''] (running_instance [CHR ''o'', CHR ''k'', CHR 0x0A]) example_store))
       = [''show'']
   \<and> Fprintf Stdout ''INFO'' [CHR 0x22, CHR ''o'', CHR ''k'', CHR 0x5C, CHR ''n'', CHR 0x22]
       \<in> set (fst (run (example_env [''show''] (running_instance [CHR ''o'', CHR ''k'', CHR 0x0A]) example_store)))
   \<and> waitForConnected (gateway (example_env [''hide''] (running_instance []) example_store))
   \<and> positionalArguments
       (commandline (example_env [''hide''] (running_instance []) example_store)) = [''hide'']
   \<and> filter (\<lambda>e. case e of Fprintf s l m \<Rightarrow> l = ''INFO'' | _ \<Rightarrow> False)
        (fst (run (example_env [''hide''] (running_instance []) example_store))) = []
   \<and> snd (run (example_env [''hide''] (running_instance []) example_store)) = Inl 0"
  using run_forwards_command
    [of "example_env [''toggle''] (running_instance ''Visibility toggled.'') example_store" "''toggle''"]
    run_forwards_command
    [of "example_env [''show''] (running_instance [CHR ''o'', CHR ''k'', CHR 0x0A]) example_store" "''show''"]
    run_forwards_command
    [of "example_env [''hide''] (running_instance []) example_store" "''hide''"]
  by (simp add: example_defs preamble_def initApplication_def parseCommandline_def prog_defs
      socketPath_def debug_bytes_def dquote_def backslash_def isPrintable_def
      applicationVersion_def EXIT_SUCCESS_def)

text \<open>
  C3, as the code has it: an invocation that carries exactly one positional argument and
  cannot connect prints that no other instance is running and exits with \<open>EXIT_FAILURE\<close>,
  which is not zero; it makes no further call.
\<close>

theorem run_command_without_instance:
  assumes "\<not> waitForConnected (gateway e)" and "positionalArguments (commandline e) = [token]"
  shows "fst (run e) =
           preamble (desktop e) @
           [ConnectToServer (socketPath (paths e)), WaitForConnected 500,
            Fprintf Stdout ''INFO'' ''There is no other instance of albert running.'']
       \<and> snd (run e) = Inl EXIT_FAILURE \<and> EXIT_FAILURE \<noteq> 0"
  using assms
  by (simp add: run_def ipcSingleton_def initApplication_def parseCommandline_def
      preamble_def prog_defs EXIT_FAILURE_def Let_def)

theorem run_command_without_instance_witness:
  "\<not> waitForConnected (gateway (example_env [''show''] no_instance example_store))
   \<and> positionalArguments (commandline (example_env [''show''] no_instance example_store))
       = [''show'']
   \<and> last (fst (run (example_env [''show''] no_instance example_store)))
       = Fprintf Stdout ''INFO'' ''There is no other instance of albert running.''
   \<and> snd (run (example_env [''show''] no_instance example_store)) = Inl 1"
  using run_command_without_instance [of "example_env [''show''] no_instance example_store" "''show''"]
  by (simp add: example_defs EXIT_FAILURE_def)

text \<open>
  The claim as the specification words it, for every invocation that supplies a positional
  token, fails with two of them: without a running instance such an invocation prints no
  such message and does not exit; it goes through the whole start-up, runs the event loop
  and returns its value.
\<close>

theorem run_two_tokens_counterexample:
  "\<not> waitForConnected (gateway (example_env [''show'', ''hide''] no_instance example_store))
   \<and> positionalArguments (commandline (example_env [''show'', ''hide''] no_instance example_store))
       = [''show'', ''hide'']
   \<and> snd (run (example_env [''show'', ''hide''] no_instance example_store)) = Inr 0
   \<and> Exec \<in> set (fst (run (example_env [''show'', ''hide''] no_instance example_store)))
   \<and> Fprintf Stdout ''INFO'' ''There is no other instance of albert running.''
       \<notin> set (fst (run (example_env [''show'', ''hide''] no_instance example_store)))"
  by (simp add: run_def initialize_def
      initApplication_def parseCommandline_def ipcSingleton_def initPaths_def
      mkpath_or_die_def detectFirstRun_def initDatabase_def createTables_def cleanup_def
      initComponents_def pluginDirs_def buildTrayIcon_def standaloneNote_def
      setupHotkey_def misc_def connectFrontend_def signaling_def eventloop_def
      finalize_def example_defs prog_defs q_exec_def create_usages_def
      create_runtimes_def cleanup_usages_def cleanup_runtimes_def Let_def section_at_def
      applicationVersion_def filePath_def same_name_def to_lower_def socketPath_def
      field_def older_than_def julianday_of_def example_dates_def usage_91_def
      usage_89_def runtime_8_def runtime_6_def)

text \<open>
  C4: an invocation that connects and carries no positional argument prints that another
  instance is running, closes the socket and exits with \<open>EXIT_SUCCESS\<close>. It writes
  nothing and never waits for bytes; the instance at the other end, served with the
  nothing that was written, makes no visibility call, writes no reply and returns.
\<close>

theorem run_second_instance:
  assumes "waitForConnected (gateway e)" and "positionalArguments (commandline e) = []"
  shows "fst (run e) =
           preamble (desktop e) @
           [ConnectToServer (socketPath (paths e)), WaitForConnected 500,
            Fprintf Stdout ''INFO'' ''There is another instance of albert running.'',
            SocketClose]
       \<and> snd (run e) = Inl EXIT_SUCCESS \<and> EXIT_SUCCESS = 0
       \<and> written (fst (run e)) = []
       \<and> (\<forall>n. WaitForReadyRead n \<notin> set (fst (run e)))
       \<and> (\<forall>g c. delivered c = concat (written (fst (run e))) \<longrightarrow>
              filter is_visibility (fst (dispatchMessage g c)) = []
              \<and> written (fst (dispatchMessage g c)) = []
              \<and> snd (dispatchMessage g c) = SlotReturned)"
  using assms
  by (simp add: run_def ipcSingleton_def initApplication_def parseCommandline_def
      preamble_def prog_defs EXIT_SUCCESS_def Let_def dispatchMessage_def)

theorem run_second_instance_witness:
  "waitForConnected (gateway (example_env [] (running_instance []) example_store))
   \<and> positionalArguments (commandline (example_env [] (running_instance []) example_store)) = []
   \<and> Fprintf Stdout ''INFO'' ''There is another instance of albert running.''
       \<in> set (fst (run (example_env [] (running_instance []) example_store)))
   \<and> written (fst (run (example_env [] (running_instance []) example_store))) = []
   \<and> snd (run (example_env [] (running_instance []) example_store)) = Inl 0"
  using run_second_instance [of "example_env [] (running_instance []) example_store"]
  by (simp add: example_defs EXIT_SUCCESS_def preamble_def initApplication_def
      parseCommandline_def prog_defs)


text \<open>
  Without a connection and with any number of positional arguments but one, \<open>run\<close> goes on
  through the whole start-up.
\<close>

lemma run_instance:
  assumes "\<not> waitForConnected (gateway e)"
    and "length (positionalArguments (commandline e)) \<noteq> 1"
  shows "fst (run e) =
           preamble (desktop e) @
           [ConnectToServer (socketPath (paths e)), WaitForConnected 500,
            RemoveServer (socketPath (paths e)),
            Fprintf Stdout ''DEBG'' ''Creating IPC server'',
            Listen (socketPath (paths e))] @
           (if listen_ok (gateway e) then [] else [listen_warning (gateway e)]) @
           [ConnectNewConnection ''dispatchMessage''] @
           fst (initialize (commandline e) (paths e) (files e) (usage_store e) (desktop e))"
    and "snd (run e) =
           snd (initialize (commandline e) (paths e) (files e) (usage_store e) (desktop e))"
  using assms
  by (simp_all add: run_def ipcSingleton_def initApplication_def parseCommandline_def
      preamble_def listen_warning_def prog_defs Let_def split: prod.splits)

lemma example_initialize:
  "Exec \<in> set (fst (initialize a example_paths example_files example_store example_session))
   \<and> snd (initialize a example_paths example_files example_store example_session) = Inr 0"
  by (simp add: initialize_def initPaths_def mkpath_or_die_def detectFirstRun_def
      initDatabase_def createTables_def cleanup_def initComponents_def buildTrayIcon_def
      standaloneNote_def setupHotkey_def misc_def connectFrontend_def signaling_def
      eventloop_def finalize_def example_defs prog_defs q_exec_def create_usages_def
      create_runtimes_def cleanup_usages_def cleanup_runtimes_def Let_def section_at_def
      applicationVersion_def same_name_def to_lower_def split: option.splits)

text \<open>
  C5: an invocation that cannot connect and carries no positional argument becomes the
  running instance. It first removes the server name left at the socket path, then listens
  on that path, which is \<open>socket\<close> under the cache location, then connects
  \<open>dispatchMessage\<close> to the server's new connections, and goes on with the rest of the
  start-up.
\<close>

theorem run_becomes_instance:
  assumes "\<not> waitForConnected (gateway e)" and "positionalArguments (commandline e) = []"
  shows "fst (run e) =
           preamble (desktop e) @
           [ConnectToServer (socketPath (paths e)), WaitForConnected 500,
            RemoveServer (socketPath (paths e)),
            Fprintf Stdout ''DEBG'' ''Creating IPC server'',
            Listen (socketPath (paths e))] @
           (if listen_ok (gateway e) then [] else [listen_warning (gateway e)]) @
           [ConnectNewConnection ''dispatchMessage''] @
           fst (initialize (commandline e) (paths e) (files e) (usage_store e) (desktop e))
       \<and> snd (run e) =
           snd (initialize (commandline e) (paths e) (files e) (usage_store e) (desktop e))
       \<and> socketPath (paths e) = cacheLocation (paths e) @ ''/socket''"
  using run_instance [of e] assms by (simp add: socketPath_def)

theorem run_becomes_instance_witness:
  "\<not> waitForConnected (gateway (example_env [] no_instance example_store))
   \<and> positionalArguments (commandline (example_env [] no_instance example_store)) = []
   \<and> (\<exists>tr. fst (run (example_env [] no_instance example_store)) =
         preamble example_session @
         [ConnectToServer ''/home/u/.cache/albert/socket'', WaitForConnected 500,
          RemoveServer ''/home/u/.cache/albert/socket'',
          Fprintf Stdout ''DEBG'' ''Creating IPC server'',
          Listen ''/home/u/.cache/albert/socket'',
          ConnectNewConnection ''dispatchMessage''] @ tr
         \<and> Exec \<in> set tr)
   \<and> snd (run (example_env [] no_instance example_store)) = Inr 0"
  using run_becomes_instance [of "example_env [] no_instance example_store"]
    example_initialize
      [of "\<lparr>positionalArguments = [], hotkey_option = None, plugin_dirs_option = None\<rparr>"]
  by (simp add: example_env_def no_instance_def socketPath_def example_paths_def)

text \<open>
  C9: when the instance-to-be cannot listen on the socket path, it prints a warning and
  goes on: its calls are those of the same start-up with a successful \<open>listen\<close>, with
  the warning put in after the \<open>listen\<close> call, and the start-up ends the same way. What
  follows is the whole rest of the initialization.
\<close>

theorem run_survives_listen_failure:
  assumes "\<not> waitForConnected (gateway e)"
    and "length (positionalArguments (commandline e)) \<noteq> 1"
    and "\<not> listen_ok (gateway e)"
  shows "\<exists>tr1.
           fst (run e) =
             tr1 @ [Listen (socketPath (paths e)), listen_warning (gateway e),
                    ConnectNewConnection ''dispatchMessage''] @
             fst (initialize (commandline e) (paths e) (files e) (usage_store e) (desktop e))
         \<and> fst (run (e\<lparr>gateway := (gateway e)\<lparr>listen_ok := True\<rparr>\<rparr>)) =
             tr1 @ [Listen (socketPath (paths e)), ConnectNewConnection ''dispatchMessage''] @
             fst (initialize (commandline e) (paths e) (files e) (usage_store e) (desktop e))
         \<and> snd (run e) =
             snd (initialize (commandline e) (paths e) (files e) (usage_store e) (desktop e))
         \<and> snd (run (e\<lparr>gateway := (gateway e)\<lparr>listen_ok := True\<rparr>\<rparr>)) = snd (run e)
         \<and> (\<exists>m. listen_warning (gateway e) = Fprintf Stderr ''WARN'' m)"
proof -
  let ?e' = "e\<lparr>gateway := (gateway e)\<lparr>listen_ok := True\<rparr>\<rparr>"
  let ?tr1 = "preamble (desktop e) @
           [ConnectToServer (socketPath (paths e)), WaitForConnected 500,
            RemoveServer (socketPath (paths e)),
            Fprintf Stdout ''DEBG'' ''Creating IPC server'']"
  have e': "\<not> waitForConnected (gateway ?e')"
    "length (positionalArguments (commandline ?e')) \<noteq> 1"
    using assms by simp_all
  have "fst (run e) =
      ?tr1 @ [Listen (socketPath (paths e)), listen_warning (gateway e),
              ConnectNewConnection ''dispatchMessage''] @
      fst (initialize (commandline e) (paths e) (files e) (usage_store e) (desktop e))"
    using run_instance(1) [OF assms(1,2)] assms(3) by simp
  moreover have "fst (run ?e') =
      ?tr1 @ [Listen (socketPath (paths e)), ConnectNewConnection ''dispatchMessage''] @
      fst (initialize (commandline e) (paths e) (files e) (usage_store e) (desktop e))"
    using run_instance(1) [OF e'] by simp
  moreover have "snd (run e) =
      snd (initialize (commandline e) (paths e) (files e) (usage_store e) (desktop e))"
    using run_instance(2) [OF assms(1,2)] by simp
  moreover have "snd (run ?e') = snd (run e)"
    using run_instance(2) [OF assms(1,2)] run_instance(2) [OF e'] by simp
  moreover have "\<exists>m. listen_warning (gateway e) = Fprintf Stderr ''WARN'' m"
    by (simp add: listen_warning_def)
  ultimately show ?thesis
    by blast
qed

theorem run_survives_listen_failure_witness:
  "\<not> waitForConnected (gateway (example_env [] no_instance_no_bind example_store))
   \<and> length (positionalArguments (commandline (example_env [] no_instance_no_bind example_store)))
       \<noteq> 1
   \<and> \<not> listen_ok (gateway (example_env [] no_instance_no_bind example_store))
   \<and> listen_warning no_instance_no_bind
       \<in> set (fst (run (example_env [] no_instance_no_bind example_store)))
   \<and> Exec \<in> set (fst (run (example_env [] no_instance_no_bind example_store)))
   \<and> snd (run (example_env [] no_instance_no_bind example_store)) = Inr 0"
  using run_survives_listen_failure [of "example_env [] no_instance_no_bind example_store"]
    example_initialize
      [of "\<lparr>positionalArguments = [], hotkey_option = None, plugin_dirs_option = None\<rparr>"]
  by (auto simp: example_env_def no_instance_no_bind_def)


subsection \<open>Opening the usage store\<close>

lemma initDatabase_fatal:
  assumes "\<not> db_valid st \<or> \<not> db_transactions st \<or> \<not> db_open st"
  shows "\<exists>tr m. initDatabase cache st = (tr @ [Fprintf Stderr ''FATAL'' m], Inl 1)
           \<and> Exec \<notin> set tr"
proof (cases "db_valid st")
  case False
  then have "initDatabase cache st =
    ([Fprintf Stdout ''DEBG'' ''Initializing database'',
      Call ''QSqlDatabase::addDatabase'' [''QSQLITE'']] @
     [Fprintf Stderr ''FATAL'' ''No sqlite available''], Inl 1)"
    by (simp add: initDatabase_def prog_defs)
  then show ?thesis
    by force
next
  case valid: True
  show ?thesis
  proof (cases "db_transactions st")
    case False
    with valid have "initDatabase cache st =
      ([Fprintf Stdout ''DEBG'' ''Initializing database'',
        Call ''QSqlDatabase::addDatabase'' [''QSQLITE'']] @
       [Fprintf Stderr ''FATAL'' ''QSqlDriver::Transactions not available.''], Inl 1)"
      by (simp add: initDatabase_def prog_defs)
    then show ?thesis
      by force
  next
    case True
    with valid assms have "\<not> db_open st"
      by simp
    with valid True have "initDatabase cache st =
      ([Fprintf Stdout ''DEBG'' ''Initializing database'',
        Call ''QSqlDatabase::addDatabase'' [''QSQLITE''],
        Call ''QSqlDatabase::setDatabaseName'' [filePath cache ''core.db''],
        Call ''QSqlDatabase::open'' []] @
       [Fprintf Stderr ''FATAL'' ''Unable to establish a database connection.''], Inl 1)"
      by (simp add: initDatabase_def prog_defs)
    then show ?thesis
      by force
  qed
qed

lemma no_Exec_singleton:
  "Exec \<notin> set (fst (steps [initApplication d, parseCommandline, ipcSingleton a p d g]))"
  by (simp add: ipcSingleton_def initApplication_def parseCommandline_def prog_defs Let_def
      split: prod.splits)

lemma no_Exec_initPaths: "Exec \<notin> set (fst (initPaths p f))"
  by (simp add: initPaths_def mkpath_or_die_def prog_defs Let_def split: prod.splits)

lemma no_Exec_detectFirstRun: "Exec \<notin> set (fst (detectFirstRun p f d))"
  by (simp add: detectFirstRun_def prog_defs Let_def split: prod.splits)

lemma initialize_without_store:
  assumes "\<not> db_valid st \<or> \<not> db_transactions st \<or> \<not> db_open st"
  shows "Exec \<notin> set (fst (initialize a p f st d))"
    and "\<exists>c. snd (initialize a p f st d) = Inl c"
proof -
  obtain tr m
    where db: "initDatabase (cacheLocation p) st = (tr @ [Fprintf Stderr ''FATAL'' m], Inl 1)"
      and tr: "Exec \<notin> set tr"
    using initDatabase_fatal [OF assms] by blast
  show "Exec \<notin> set (fst (initialize a p f st d))"
    using no_Exec_initPaths [of p f] no_Exec_detectFirstRun [of p f d] tr
    by (simp add: initialize_def fst_and_then db split: sum.splits)
  show "\<exists>c. snd (initialize a p f st d) = Inl c"
    by (simp add: initialize_def snd_and_then db split: sum.splits)
qed

text \<open>
  C6: when SQLite is not available, or its driver has no transactions, or the database
  cannot be opened, the initialization of the store ends the process with a fatal message
  and status 1. An invocation that meets such a store never reaches its event loop and
  never returns from \<open>run\<close>: it ends in an exit.
\<close>

theorem store_failure_is_fatal:
  assumes "\<not> db_valid (usage_store e) \<or> \<not> db_transactions (usage_store e)
           \<or> \<not> db_open (usage_store e)"
  shows "(\<exists>tr m. initDatabase (cacheLocation (paths e)) (usage_store e) =
                   (tr @ [Fprintf Stderr ''FATAL'' m], Inl 1))
       \<and> Exec \<notin> set (fst (run e))
       \<and> (\<exists>c. snd (run e) = Inl c)"
proof (intro conjI)
  show "\<exists>tr m. initDatabase (cacheLocation (paths e)) (usage_store e) =
                   (tr @ [Fprintf Stderr ''FATAL'' m], Inl 1)"
    using initDatabase_fatal [OF assms] by blast
  show "Exec \<notin> set (fst (run e))"
    using no_Exec_singleton initialize_without_store(1) [OF assms]
    by (simp add: run_def fst_and_then split: sum.splits del: steps.simps)
  show "\<exists>c. snd (run e) = Inl c"
    using initialize_without_store(2) [OF assms]
    by (simp add: run_def snd_and_then split: sum.splits del: steps.simps)
qed

theorem store_failure_is_fatal_witness:
  "\<not> db_open (usage_store (example_env [] no_instance (example_store\<lparr>db_open := False\<rparr>)))
   \<and> Exec \<notin> set (fst (run (example_env [] no_instance (example_store\<lparr>db_open := False\<rparr>))))
   \<and> snd (run (example_env [] no_instance (example_store\<lparr>db_open := False\<rparr>))) = Inl 1
   \<and> last (fst (run (example_env [] no_instance (example_store\<lparr>db_open := False\<rparr>))))
       = Fprintf Stderr ''FATAL'' ''Unable to establish a database connection.''"
proof -
  let ?e = "example_env [] no_instance (example_store\<lparr>db_open := False\<rparr>)"
  have closed: "\<not> db_valid (usage_store ?e) \<or> \<not> db_transactions (usage_store ?e)
      \<or> \<not> db_open (usage_store ?e)"
    by (simp add: example_env_def)
  have ends: "snd (run ?e) = Inl 1
      \<and> last (fst (run ?e)) = Fprintf Stderr ''FATAL'' ''Unable to establish a database connection.''"
    by (simp add: run_def initialize_def initApplication_def parseCommandline_def
        ipcSingleton_def initPaths_def mkpath_or_die_def detectFirstRun_def initDatabase_def
        example_defs prog_defs Let_def section_at_def applicationVersion_def)
  have shut: "\<not> db_open (usage_store ?e)"
    by (simp add: example_env_def)
  from store_failure_is_fatal [OF closed] shut ends show ?thesis
    by blast
qed


subsection \<open>Tables and cleanup\<close>

lemma same_name_trans: "same_name n t \<Longrightarrow> same_name n t' \<longleftrightarrow> same_name t t'"
  by (simp add: same_name_def)




































end
